theory Spec2Isabelle
  imports Complex_Main
begin

section \<open>CivicLens issue routes: data model\<close>

text \<open>
  The backend keeps issues in PostgreSQL behind Prisma and serves them through the
  Express router of the issues route file. The enums are those of the initial
  migration. Two enums of the schema share the labels PENDING and RESOLVED; the
  lifecycle ones carry a prefix here.
\<close>

datatype Role = ADMIN | DEPARTMENT_HEAD | TEAM_MEMBER

datatype IssueStatus = PENDING | IN_PROGRESS | RESOLVED | CLOSED

datatype Priority = LOW | MEDIUM | HIGH | CRITICAL

datatype LifecycleStep = REPORTED | ACKNOWLEDGED | ASSIGNED | STEP_RESOLVED | CITIZEN_VERIFIED

datatype LifecycleStatus = STEP_PENDING | CURRENT | COMPLETED

text \<open>Prisma hands enum columns to JavaScript as the strings of their labels.\<close>

fun statusName :: "IssueStatus \<Rightarrow> string" where
  "statusName PENDING = ''PENDING''"
| "statusName IN_PROGRESS = ''IN_PROGRESS''"
| "statusName RESOLVED = ''RESOLVED''"
| "statusName CLOSED = ''CLOSED''"

fun priorityName :: "Priority \<Rightarrow> string" where
  "priorityName LOW = ''LOW''"
| "priorityName MEDIUM = ''MEDIUM''"
| "priorityName HIGH = ''HIGH''"
| "priorityName CRITICAL = ''CRITICAL''"

text \<open>
  A row of \<open>issue_lifecycle\<close> (columns step, status, notes, createdAt) and a row
  of \<open>issues\<close> (column id is \<open>issueId\<close>) together with its lifecycle rows in
  insertion order. A field name carries a prefix where Isabelle reserves the word or
  another record has the name. Timestamps are milliseconds since the epoch, as
  \<open>Date.getTime\<close> gives them. The column \<open>slaDeadline\<close>, which no route writes,
  and the comments and attachments play no part in the operations below and are left
  out.
\<close>

record lifecycleRecord =
  step :: LifecycleStep
  stepStatus :: LifecycleStatus
  stepNotes :: "string option"
  stepCreatedAt :: int

record issue =
  issueId :: string
  title :: string
  description :: string
  status :: IssueStatus
  priority :: Priority
  department :: string
  latitude :: real
  longitude :: real
  address :: "string option"
  createdAt :: int
  updatedAt :: int
  reportedById :: "string option"
  assignedToId :: "string option"
  lifecycle :: "lifecycleRecord list"

text \<open>\<open>req.user\<close> as the \<open>authenticate\<close> middleware sets it: id, email, role, department.\<close>

record authUser =
  userId :: string
  email :: string
  role :: Role
  userDepartment :: "string option"

section \<open>JavaScript values the handlers build\<close>

text \<open>
  Objects are association lists in insertion order: assigning to a key that is already
  present replaces its value and keeps its position, which is also the order in which
  \<open>JSON.stringify\<close> prints the keys. A number that may be \<open>NaN\<close> is an
  \<open>int option\<close>, \<open>None\<close> standing for \<open>NaN\<close>.
\<close>

datatype json =
  JNull
| JNumber int
| JString string
| JArray "json list"
| JObject "(string \<times> json) list"

type_synonym jsobject = "(string \<times> json) list"

type_synonym jsnumber = "int option"

fun setProp :: "string \<Rightarrow> 'v \<Rightarrow> (string \<times> 'v) list \<Rightarrow> (string \<times> 'v) list" where
  "setProp k v [] = [(k, v)]"
| "setProp k v (p # ps) = (if fst p = k then (k, v) # ps else p # setProp k v ps)"

definition digitChar :: "nat \<Rightarrow> char" where
  "digitChar n = ''0123456789abcdef'' ! n"

fun showNat :: "nat \<Rightarrow> string" where
  "showNat n = (if n < 10 then [digitChar n] else showNat (n div 10) @ [digitChar (n mod 10)])"

declare showNat.simps [simp del]

text \<open>
  The decimal text JavaScript gives an integral number, in a template or in JSON (below
  \<open>10^21\<close>, where JavaScript changes to exponent notation).
\<close>

definition showInt :: "int \<Rightarrow> string" where
  "showInt n = (if n < 0 then CHR ''-'' # showNat (nat (- n)) else showNat (nat n))"

fun joinWith :: "string \<Rightarrow> string list \<Rightarrow> string" where
  "joinWith sep [] = []"
| "joinWith sep [x] = x"
| "joinWith sep (x # y # ys) = x @ sep @ joinWith sep (y # ys)"

text \<open>
  \<open>JSON.stringify\<close> on strings: the double quote (0x22), the backslash (0x5C) and
  the control characters are escaped. Characters are bytes here.
\<close>

definition escapeChar :: "char \<Rightarrow> string" where
  "escapeChar c =
     (if c = CHR 0x22 then [CHR 0x5C, CHR 0x22]
      else if c = CHR 0x5C then [CHR 0x5C, CHR 0x5C]
      else if c = CHR 0x08 then [CHR 0x5C, CHR ''b'']
      else if c = CHR 0x0C then [CHR 0x5C, CHR ''f'']
      else if c = CHR 0x0A then [CHR 0x5C, CHR ''n'']
      else if c = CHR 0x0D then [CHR 0x5C, CHR ''r'']
      else if c = CHR 0x09 then [CHR 0x5C, CHR ''t'']
      else if (of_char c :: nat) < 32
        then [CHR 0x5C, CHR ''u'', CHR ''0'', CHR ''0'',
              digitChar (of_char c div 16), digitChar (of_char c mod 16)]
      else [c])"

definition quote :: "string \<Rightarrow> string" where
  "quote s = CHR 0x22 # concat (map escapeChar s) @ [CHR 0x22]"

fun stringify :: "json \<Rightarrow> string" where
  "stringify JNull = ''null''"
| "stringify (JNumber n) = showInt n"
| "stringify (JString s) = quote s"
| "stringify (JArray xs) = ''['' @ joinWith '','' (map stringify xs) @ '']''"
| "stringify (JObject ps) =
     ''{'' @ joinWith '','' (map (\<lambda>p. quote (fst p) @ '':'' @ stringify (snd p)) ps) @ ''}''"

definition numberJson :: "jsnumber \<Rightarrow> json" where
  "numberJson n = (case n of None \<Rightarrow> JNull | Some k \<Rightarrow> JNumber k)"

section \<open>calculateSLA\<close>

text \<open>
  \<^verbatim>\<open>const slaHours = { CRITICAL: 4, HIGH: 24, MEDIUM: 72, LOW: 168 };\<close>
  \<^verbatim>\<open>const maxHours = slaHours[priority as keyof typeof slaHours] || 72;\<close>

  The lookup is a property read on an object literal. For the four keys it gives the
  number; for a name the literal inherits from \<open>Object.prototype\<close> it gives a function
  or an object, which is truthy, so \<open>|| 72\<close> does not apply and every later
  arithmetic on \<open>maxHours\<close> is \<open>NaN\<close>; for any other string it gives
  \<open>undefined\<close> and \<open>maxHours\<close> is 72. \<open>maxHoursOf\<close> returns \<open>None\<close> in the
  inherited case. The callers pass the priority column, which holds one of the four
  labels.
\<close>

definition slaHours :: "(string \<times> int) list" where
  "slaHours = [(''CRITICAL'', 4), (''HIGH'', 24), (''MEDIUM'', 72), (''LOW'', 168)]"

definition objectPrototypeNames :: "string list" where
  "objectPrototypeNames =
     [''constructor'', ''toString'', ''toLocaleString'', ''valueOf'', ''hasOwnProperty'',
      ''isPrototypeOf'', ''propertyIsEnumerable'', ''__proto__'', ''__defineGetter__'',
      ''__defineSetter__'', ''__lookupGetter__'', ''__lookupSetter__'']"

definition maxHoursOf :: "string \<Rightarrow> int option" where
  "maxHoursOf priority' =
     (case map_of slaHours priority' of
        Some h \<Rightarrow> Some h
      | None \<Rightarrow> if priority' \<in> set objectPrototypeNames then None else Some 72)"

text \<open>
  The clock read \<open>new Date()\<close> is the parameter \<open>now\<close>. \<open>Math.floor\<close> of the
  quotient of two integers is \<open>div\<close> on \<open>int\<close>. With \<open>maxHours\<close> not a number
  both comparisons are false and the last template prints \<open>NaN\<close>.

  JavaScript subtracts and divides in binary64. The two time values are integers, and
  while they are at most \<open>2^53\<close> milliseconds apart (some 285 000 years) the
  difference is exact and the floor of the rounded quotient is the floor of the exact
  one, since a quotient stays further from the next integer than half a unit in the last
  place. \<open>withinExactRange\<close> says so of two time values; beyond it the integer
  arithmetic below is not what the code computes.
\<close>

definition withinExactRange :: "int \<Rightarrow> int \<Rightarrow> bool" where
  "withinExactRange now createdAt' = (\<bar>now - createdAt'\<bar> \<le> 2 ^ 53)"

definition calculateSLA :: "int \<Rightarrow> int \<Rightarrow> string \<Rightarrow> string \<Rightarrow> string" where
  "calculateSLA now createdAt' status' priority' =
     (let diffHours = (now - createdAt') div (1000 * 60 * 60) in
      if status' = ''RESOLVED'' \<or> status' = ''CLOSED'' then ''Closed''
      else case maxHoursOf priority' of
        None \<Rightarrow> ''NaNd left''
      | Some maxHours \<Rightarrow>
          if diffHours > maxHours then ''Overdue''
          else let remainingHours = maxHours - diffHours in
            if remainingHours \<le> 2 then showInt remainingHours @ ''h left''
            else showInt (remainingHours div 24) @ ''d left'')"

text \<open>
  The allowance as the specification words it: CRITICAL=4, HIGH=24, MEDIUM=72, LOW=168,
  and 72 for a priority that is not recognised.
\<close>

definition spec_allowance :: "string \<Rightarrow> int" where
  "spec_allowance p =
     (if p = ''CRITICAL'' then 4 else if p = ''HIGH'' then 24
      else if p = ''MEDIUM'' then 72 else if p = ''LOW'' then 168 else 72)"

section \<open>Text matching\<close>

text \<open>
  Prisma's \<open>contains\<close> with \<open>mode: 'insensitive'\<close> becomes the PostgreSQL test
  \<open>column ILIKE '%search%'\<close> with the search text put into the pattern as it is: a
  \<open>%\<close> in it stands for any run of characters, a \<open>_\<close> for any one character,
  and a backslash (0x5C) makes the next character of the pattern literal. The case of
  letters is ignored; only the ASCII letters are folded here.
\<close>

definition toLowerChar :: "char \<Rightarrow> char" where
  "toLowerChar c =
     (if (65::nat) \<le> of_char c \<and> of_char c \<le> (90::nat) then char_of (of_char c + (32::nat)) else c)"

fun likeMatch :: "string \<Rightarrow> string \<Rightarrow> bool" where
  "likeMatch [] t = (t = [])"
| "likeMatch (p # ps) [] = (p = CHR 0x25 \<and> likeMatch ps [])"
| "likeMatch (p # ps) (c # cs) =
     (if p = CHR 0x25 then likeMatch ps (c # cs) \<or> likeMatch (p # ps) cs
      else if p = CHR 0x5F then likeMatch ps cs
      else if p = CHR 0x5C then (case ps of [] \<Rightarrow> False | q # qs \<Rightarrow> q = c \<and> likeMatch qs cs)
      else p = c \<and> likeMatch ps cs)"

definition containsInsensitive :: "string \<Rightarrow> string \<Rightarrow> bool" where
  "containsInsensitive s p =
     likeMatch (CHR 0x25 # map toLowerChar p @ [CHR 0x25]) (map toLowerChar s)"

section \<open>The where object and the repository\<close>

text \<open>
  The handler of \<open>GET /api/issues\<close> builds \<open>where\<close> by property assignments. A
  property holds either a value the column must equal, or, under the key \<open>OR\<close>, the
  list of \<open>{ field: { contains: search, mode: 'insensitive' } }\<close> alternatives.
\<close>

datatype condition =
  Equals string
| AnyContains "(string \<times> string) list"

type_synonym whereClause = "(string \<times> condition) list"

fun conditionJson :: "condition \<Rightarrow> json" where
  "conditionJson (Equals v) = JString v"
| "conditionJson (AnyContains fs) =
     JArray (map (\<lambda>f. JObject [(fst f,
        JObject [(''contains'', JString (snd f)), (''mode'', JString ''insensitive'')])]) fs)"

definition whereJson :: "whereClause \<Rightarrow> json" where
  "whereJson w = JObject (map (\<lambda>p. (fst p, conditionJson (snd p))) w)"

text \<open>The text of a column of an issue row, \<open>None\<close> for SQL NULL or an unknown column.\<close>

definition columnText :: "string \<Rightarrow> issue \<Rightarrow> string option" where
  "columnText k i =
     (if k = ''assignedToId'' then assignedToId i
      else if k = ''department'' then Some (department i)
      else if k = ''status'' then Some (statusName (status i))
      else if k = ''priority'' then Some (priorityName (priority i))
      else if k = ''title'' then Some (title i)
      else if k = ''description'' then Some (description i)
      else if k = ''address'' then address i
      else None)"

fun conditionHolds :: "string \<Rightarrow> condition \<Rightarrow> issue \<Rightarrow> bool" where
  "conditionHolds k (Equals v) i = (columnText k i = Some v)"
| "conditionHolds k (AnyContains fs) i =
     list_ex (\<lambda>f. case columnText (fst f) i of
                     None \<Rightarrow> False
                   | Some t \<Rightarrow> containsInsensitive t (snd f)) fs"

definition whereMatches :: "whereClause \<Rightarrow> issue \<Rightarrow> bool" where
  "whereMatches w i = list_all (\<lambda>p. conditionHolds (fst p) (snd p) i) w"

text \<open>
  \<open>prisma.issue.findMany({ where, skip, take, orderBy: { createdAt: 'desc' } })\<close>.
  Prisma rejects a \<open>skip\<close> or \<open>take\<close> that is not a number or does not fit a
  signed 64-bit integer, and a negative \<open>skip\<close> (the call throws, \<open>None\<close> here); a
  negative \<open>take\<close> counts from the end of the ordered rows. Rows with equal keys keep
  their insertion order.
\<close>

definition fitsInt64 :: "int \<Rightarrow> bool" where
  "fitsInt64 n = (- (2 ^ 63) \<le> n \<and> n < 2 ^ 63)"

definition findMany :: "whereClause \<Rightarrow> jsnumber \<Rightarrow> jsnumber \<Rightarrow> issue list \<Rightarrow> issue list option" where
  "findMany w skip take' rows =
     (case skip of
        None \<Rightarrow> None
      | Some s \<Rightarrow>
          (case take' of
             None \<Rightarrow> None
           | Some t \<Rightarrow>
               if s < 0 \<or> \<not> fitsInt64 s \<or> \<not> fitsInt64 t then None
               else
                 let ordered = sort_key (\<lambda>i. - createdAt i) (filter (whereMatches w) rows) in
                 Some (if 0 \<le> t then take (nat t) (drop (nat s) ordered)
                       else rev (take (nat (- t)) (drop (nat s) (rev ordered))))))"

definition countWhere :: "whereClause \<Rightarrow> issue list \<Rightarrow> int" where
  "countWhere w rows = int (length (filter (whereMatches w) rows))"

fun findUnique :: "string \<Rightarrow> issue list \<Rightarrow> issue option" where
  "findUnique id' [] = None"
| "findUnique id' (r # rs) = (if issueId r = id' then Some r else findUnique id' rs)"

text \<open>
  \<open>include: { lifecycle: { orderBy: { createdAt: 'asc' } } }\<close>. The sort is stable:
  lifecycle rows with the same \<open>createdAt\<close>, such as the rows of one nested write,
  stay in insertion order.
\<close>

definition lifecycleAsc :: "issue \<Rightarrow> issue" where
  "lifecycleAsc i = i\<lparr>lifecycle := sort_key stepCreatedAt (lifecycle i)\<rparr>"

section \<open>The Redis cache\<close>

text \<open>
  \<open>cache.set\<close> stores with \<open>SETEX\<close> and a time to live in seconds, \<open>cache.get\<close>
  reads with \<open>GET\<close>, \<open>cache.del\<close> sends \<open>DEL key\<close>, which removes the one key of
  that exact name. An entry is the time it expires at and the listing stored; the
  listing is kept as it is, without the round trip through JSON text. The Redis client
  is taken to answer: when it throws, the three utilities log and do nothing.
\<close>

record pagination =
  pgPage :: jsnumber
  pgLimit :: jsnumber
  pgTotal :: int
  pgPages :: jsnumber

record listing =
  items :: "(issue \<times> string) list"
  paging :: pagination

type_synonym cacheStore = "string \<Rightarrow> (int \<times> listing) option"

definition cache_get :: "int \<Rightarrow> cacheStore \<Rightarrow> string \<Rightarrow> listing option" where
  "cache_get now c key =
     (case c key of
        None \<Rightarrow> None
      | Some e \<Rightarrow> if now < fst e then Some (snd e) else None)"

definition cache_set :: "int \<Rightarrow> cacheStore \<Rightarrow> string \<Rightarrow> listing \<Rightarrow> int \<Rightarrow> cacheStore" where
  "cache_set now c key v ttl = c(key := Some (now + ttl * 1000, v))"

definition cache_del :: "cacheStore \<Rightarrow> string \<Rightarrow> cacheStore" where
  "cache_del c key = c(key := None)"

section \<open>State and failures\<close>

text \<open>
  The state the handlers work on: the rows of \<open>issues\<close>, the ids of the rows of
  \<open>users\<close> (the target of the foreign key \<open>assignedToId\<close>) and the cache.
  A handler either answers with a failure or with its data. Socket.IO events and log
  lines are not part of the state.

  The failures are the answers the routes give: 400 Validation failed (the
  specification's ValidationError), 404 Issue not found (NotFoundError), 403 Access denied
  from a handler's scope check and 403 from the \<open>authorize\<close> middleware
  (AuthorizationError), and an exception thrown by Prisma. The routes have no answer that
  stands for an InvalidTransitionError or a ConflictError.
\<close>

record appState =
  issues :: "issue list"
  userIds :: "string list"
  cache :: cacheStore

datatype failure =
  ValidationFailed
| IssueNotFound
| AccessDenied
| InsufficientPermissions
| PrismaError

text \<open>The HTTP status of each failure; a Prisma exception ends in the error handler.\<close>

fun httpStatus :: "failure \<Rightarrow> nat" where
  "httpStatus ValidationFailed = 400"
| "httpStatus IssueNotFound = 404"
| "httpStatus AccessDenied = 403"
| "httpStatus InsufficientPermissions = 403"
| "httpStatus PrismaError = 500"

text \<open>
  The two permission checks that the get, update and comment handlers repeat:
  \<^verbatim>\<open>role === 'TEAM_MEMBER' && issue.assignedToId !== req.user.id\<close> and
  \<^verbatim>\<open>role === 'DEPARTMENT_HEAD' && issue.department !== req.user.department\<close>.
\<close>

definition accessDenied :: "authUser \<Rightarrow> issue \<Rightarrow> bool" where
  "accessDenied user i =
     ((role user = TEAM_MEMBER \<and> assignedToId i \<noteq> Some (userId user))
      \<or> (role user = DEPARTMENT_HEAD \<and> Some (department i) \<noteq> userDepartment user))"

section \<open>GET /api/issues\<close>

text \<open>
  The query after \<open>validate(querySchema)\<close>. \<open>qPage\<close> and \<open>qLimit\<close> hold what
  \<open>parseInt\<close> makes of the parameter when it is present; absent, the defaults
  \<open>'1'\<close> and \<open>'10'\<close> apply. A string is truthy when it is not empty.
\<close>

record issueQuery =
  qPage :: "jsnumber option"
  qLimit :: "jsnumber option"
  qStatus :: "IssueStatus option"
  qPriority :: "Priority option"
  qDepartment :: "string option"
  qAssignedToId :: "string option"
  qSearch :: "string option"

definition truthy :: "string option \<Rightarrow> bool" where
  "truthy s = (case s of None \<Rightarrow> False | Some t \<Rightarrow> t \<noteq> [])"

definition roleFilter :: "authUser \<Rightarrow> whereClause" where
  "roleFilter user =
     (if role user = TEAM_MEMBER then [(''assignedToId'', Equals (userId user))]
      else if role user = DEPARTMENT_HEAD \<and> truthy (userDepartment user)
        then (case userDepartment user of
                None \<Rightarrow> []
              | Some d \<Rightarrow> [(''department'', Equals d)])
      else [])"

definition setIfTruthy :: "string \<Rightarrow> string option \<Rightarrow> whereClause \<Rightarrow> whereClause" where
  "setIfTruthy k v w =
     (case v of
        None \<Rightarrow> w
      | Some t \<Rightarrow> if t \<noteq> [] then setProp k (Equals t) w else w)"

definition buildWhere :: "authUser \<Rightarrow> issueQuery \<Rightarrow> whereClause" where
  "buildWhere user q =
     (let w0 = roleFilter user;
          w1 = setIfTruthy ''status'' (map_option statusName (qStatus q)) w0;
          w2 = setIfTruthy ''priority'' (map_option priorityName (qPriority q)) w1;
          w3 = setIfTruthy ''department'' (qDepartment q) w2;
          w4 = setIfTruthy ''assignedToId'' (qAssignedToId q) w3
      in case qSearch q of
           None \<Rightarrow> w4
         | Some s \<Rightarrow>
             if s \<noteq> []
             then setProp ''OR''
                    (AnyContains [(''title'', s), (''description'', s), (''address'', s)]) w4
             else w4)"

text \<open>\<open>(pageNum - 1) * limitNum\<close> on numbers that may be \<open>NaN\<close>.\<close>

definition skipOf :: "jsnumber \<Rightarrow> jsnumber \<Rightarrow> jsnumber" where
  "skipOf pageNum limitNum =
     (case pageNum of
        None \<Rightarrow> None
      | Some p \<Rightarrow> (case limitNum of None \<Rightarrow> None | Some l \<Rightarrow> Some ((p - 1) * l)))"

definition cacheKey :: "whereClause \<Rightarrow> jsnumber \<Rightarrow> jsnumber \<Rightarrow> string" where
  "cacheKey w skip limitNum =
     ''issues:'' @ stringify (JObject [(''where'', whereJson w), (''skip'', numberJson skip),
                                        (''limitNum'', numberJson limitNum)])"

text \<open>
  \<open>Math.ceil(total / limitNum)\<close>: not a finite number when \<open>limitNum\<close> is 0 or
  \<open>NaN\<close> (\<open>None\<close> here as well), otherwise the ceiling of the quotient.
\<close>

definition pagesOf :: "int \<Rightarrow> jsnumber \<Rightarrow> jsnumber" where
  "pagesOf total' limitNum =
     (case limitNum of
        None \<Rightarrow> None
      | Some l \<Rightarrow> if l = 0 then None else Some (- ((- total') div l)))"

definition withSLA :: "int \<Rightarrow> issue \<Rightarrow> issue \<times> string" where
  "withSLA now i = (i, calculateSLA now (createdAt i) (statusName (status i)) (priorityName (priority i)))"

definition listIssues :: "int \<Rightarrow> authUser \<Rightarrow> issueQuery \<Rightarrow> appState \<Rightarrow> (failure + listing) \<times> appState" where
  "listIssues now user q st =
     (let pageNum = (case qPage q of None \<Rightarrow> Some 1 | Some n \<Rightarrow> n);
          limitNum = (case qLimit q of None \<Rightarrow> Some 10 | Some n \<Rightarrow> n);
          skip = skipOf pageNum limitNum;
          w = buildWhere user q;
          key = cacheKey w skip limitNum
      in case cache_get now (cache st) key of
           Some cachedResult \<Rightarrow> (Inr cachedResult, st)
         | None \<Rightarrow>
             (case findMany w skip limitNum (issues st) of
                None \<Rightarrow> (Inl PrismaError, st)
              | Some found \<Rightarrow>
                  let total' = countWhere w (issues st);
                      issuesWithSLA = map (\<lambda>i. withSLA now (lifecycleAsc i)) found;
                      result = \<lparr>items = issuesWithSLA,
                                paging = \<lparr>pgPage = pageNum, pgLimit = limitNum, pgTotal = total',
                                           pgPages = pagesOf total' limitNum\<rparr>\<rparr>
                  in (Inr result, st\<lparr>cache := cache_set now (cache st) key result 300\<rparr>)))"

section \<open>GET /api/issues/:id\<close>

definition getIssue :: "int \<Rightarrow> authUser \<Rightarrow> string \<Rightarrow> appState \<Rightarrow> failure + (issue \<times> string)" where
  "getIssue now user id' st =
     (case findUnique id' (issues st) of
        None \<Rightarrow> Inl IssueNotFound
      | Some i \<Rightarrow>
          if accessDenied user i then Inl AccessDenied
          else Inr (withSLA now (lifecycleAsc i)))"

section \<open>POST /api/issues\<close>

text \<open>The body as \<open>createIssueSchema\<close> types it, and the schema's bounds.\<close>

record createIssueBody =
  cTitle :: string
  cDescription :: string
  cDepartment :: string
  cLatitude :: real
  cLongitude :: real
  cAddress :: "string option"
  cPriority :: "Priority option"

definition createIssueSchema :: "createIssueBody \<Rightarrow> bool" where
  "createIssueSchema b =
     (5 \<le> length (cTitle b) \<and> 10 \<le> length (cDescription b) \<and> 1 \<le> length (cDepartment b)
      \<and> - 90 \<le> cLatitude b \<and> cLatitude b \<le> 90
      \<and> - 180 \<le> cLongitude b \<and> cLongitude b \<le> 180)"

text \<open>
  \<open>newId\<close> is the id the database default gives the row; the primary key refuses an
  id that is already there. The reporter is the authenticated user, whose row exists.
  The column defaults give status PENDING and both timestamps; the two lifecycle rows are
  inserted in the order of the nested \<open>create\<close>.
\<close>

definition createIssue :: "int \<Rightarrow> string \<Rightarrow> authUser \<Rightarrow> createIssueBody \<Rightarrow> appState \<Rightarrow> (failure + issue) \<times> appState" where
  "createIssue now newId user b st =
     (if \<not> createIssueSchema b then (Inl ValidationFailed, st)
      else if newId \<in> set (map issueId (issues st)) then (Inl PrismaError, st)
      else
        let i = \<lparr>issueId = newId, title = cTitle b, description = cDescription b,
                 status = PENDING,
                 priority = (case cPriority b of None \<Rightarrow> MEDIUM | Some p \<Rightarrow> p),
                 department = cDepartment b, latitude = cLatitude b, longitude = cLongitude b,
                 address = cAddress b, createdAt = now, updatedAt = now,
                 reportedById = Some (userId user), assignedToId = None,
                 lifecycle =
                   [\<lparr>step = REPORTED, stepStatus = COMPLETED, stepNotes = None, stepCreatedAt = now\<rparr>,
                    \<lparr>step = ACKNOWLEDGED, stepStatus = CURRENT, stepNotes = None, stepCreatedAt = now\<rparr>]\<rparr>
        in (Inr i, st\<lparr>issues := issues st @ [i], cache := cache_del (cache st) ''issues:*''\<rparr>))"

section \<open>PUT /api/issues/:id\<close>

text \<open>
  \<open>validate\<close> parses the request against \<open>updateIssueSchema\<close> and, when that
  succeeds, calls \<open>next()\<close> with \<open>req.body\<close> as it came: keys the schema does not
  name are not removed, and the handler spreads the whole body into the \<open>data\<close> of
  \<open>prisma.issue.update\<close>. Besides the five fields of the schema the body here may
  carry the relation key \<open>lifecycle\<close> with a nested \<open>create\<close>, the form the create
  handler itself uses; other extra keys are not modelled.
\<close>

record lifecycleInput =
  inStep :: LifecycleStep
  inStatus :: "LifecycleStatus option"
  inNotes :: "string option"

record updateIssueBody =
  uTitle :: "string option"
  uDescription :: "string option"
  uStatus :: "IssueStatus option"
  uPriority :: "Priority option"
  uAssignedToId :: "string option"
  uLifecycleCreate :: "lifecycleInput list option"

definition updateIssueSchema :: "updateIssueBody \<Rightarrow> bool" where
  "updateIssueSchema u =
     ((case uTitle u of None \<Rightarrow> True | Some t \<Rightarrow> 5 \<le> length t)
      \<and> (case uDescription u of None \<Rightarrow> True | Some d \<Rightarrow> 10 \<le> length d))"

text \<open>The rows the handler collects in \<open>lifecycleUpdates\<close>.\<close>

definition lifecycleUpdates :: "updateIssueBody \<Rightarrow> issue \<Rightarrow> lifecycleInput list" where
  "lifecycleUpdates u currentIssue =
     (if truthy (uAssignedToId u) \<and> uAssignedToId u \<noteq> assignedToId currentIssue
      then [\<lparr>inStep = ASSIGNED, inStatus = Some COMPLETED, inNotes = None\<rparr>] else [])
     @ (if uStatus u = Some RESOLVED \<and> status currentIssue \<noteq> RESOLVED
        then [\<lparr>inStep = STEP_RESOLVED, inStatus = Some COMPLETED, inNotes = None\<rparr>] else [])"

text \<open>
  The \<open>data\<close> object is \<open>{ ...updates, ...(lifecycleUpdates.length > 0 && { lifecycle:
  { createMany: { data: lifecycleUpdates } } }) }\<close>: the handler's own rows replace a
  \<open>lifecycle\<close> key of the body, which otherwise stays.
\<close>

definition lifecycleWrite :: "updateIssueBody \<Rightarrow> issue \<Rightarrow> lifecycleInput list" where
  "lifecycleWrite u currentIssue =
     (if lifecycleUpdates u currentIssue \<noteq> [] then lifecycleUpdates u currentIssue
      else (case uLifecycleCreate u of None \<Rightarrow> [] | Some rs \<Rightarrow> rs))"

definition newLifecycleRow :: "int \<Rightarrow> lifecycleInput \<Rightarrow> lifecycleRecord" where
  "newLifecycleRow now r =
     \<lparr>step = inStep r,
      stepStatus = (case inStatus r of None \<Rightarrow> STEP_PENDING | Some s \<Rightarrow> s),
      stepNotes = inNotes r, stepCreatedAt = now\<rparr>"

text \<open>
  Prisma writes \<open>updatedAt\<close> when the update sets a column of the issue row; a body
  that names none of them (an empty one, or one with the \<open>lifecycle\<close> key alone)
  leaves the row, and with it \<open>updatedAt\<close>, as it is.
\<close>

definition setsColumn :: "updateIssueBody \<Rightarrow> bool" where
  "setsColumn u =
     (uTitle u \<noteq> None \<or> uDescription u \<noteq> None \<or> uStatus u \<noteq> None
      \<or> uPriority u \<noteq> None \<or> uAssignedToId u \<noteq> None)"

definition applyUpdate :: "int \<Rightarrow> updateIssueBody \<Rightarrow> lifecycleInput list \<Rightarrow> issue \<Rightarrow> issue" where
  "applyUpdate now u rows i =
     i\<lparr>title := (case uTitle u of None \<Rightarrow> title i | Some t \<Rightarrow> t),
       description := (case uDescription u of None \<Rightarrow> description i | Some d \<Rightarrow> d),
       status := (case uStatus u of None \<Rightarrow> status i | Some s \<Rightarrow> s),
       priority := (case uPriority u of None \<Rightarrow> priority i | Some p \<Rightarrow> p),
       assignedToId := (case uAssignedToId u of None \<Rightarrow> assignedToId i | Some a \<Rightarrow> Some a),
       updatedAt := (if setsColumn u then now else updatedAt i),
       lifecycle := lifecycle i @ map (newLifecycleRow now) rows\<rparr>"

fun replaceRow :: "string \<Rightarrow> issue \<Rightarrow> issue list \<Rightarrow> issue list" where
  "replaceRow id' new [] = []"
| "replaceRow id' new (r # rs) = (if issueId r = id' then new # rs else r # replaceRow id' new rs)"

text \<open>
  \<open>prisma.issue.update\<close> is one transaction: with an \<open>assignedToId\<close> that is no
  user's id the foreign key fails and nothing is written.
\<close>

definition foreignKeyOk :: "updateIssueBody \<Rightarrow> appState \<Rightarrow> bool" where
  "foreignKeyOk u st = (case uAssignedToId u of None \<Rightarrow> True | Some a \<Rightarrow> a \<in> set (userIds st))"

definition updateIssue :: "int \<Rightarrow> authUser \<Rightarrow> string \<Rightarrow> updateIssueBody \<Rightarrow> appState \<Rightarrow> (failure + issue) \<times> appState" where
  "updateIssue now user id' updates st =
     (if \<not> updateIssueSchema updates then (Inl ValidationFailed, st)
      else case findUnique id' (issues st) of
        None \<Rightarrow> (Inl IssueNotFound, st)
      | Some currentIssue \<Rightarrow>
          if accessDenied user currentIssue then (Inl AccessDenied, st)
          else if \<not> foreignKeyOk updates st then (Inl PrismaError, st)
          else
            let i = applyUpdate now updates (lifecycleWrite updates currentIssue) currentIssue
            in (Inr (lifecycleAsc i),
                st\<lparr>issues := replaceRow id' i (issues st),
                   cache := cache_del (cache st) ''issues:*''\<rparr>))"

section \<open>DELETE /api/issues/:id\<close>

fun deleteRow :: "string \<Rightarrow> issue list \<Rightarrow> issue list" where
  "deleteRow id' [] = []"
| "deleteRow id' (r # rs) = (if issueId r = id' then rs else r # deleteRow id' rs)"

definition deleteIssue :: "authUser \<Rightarrow> string \<Rightarrow> appState \<Rightarrow> (failure + unit) \<times> appState" where
  "deleteIssue user id' st =
     (if role user \<noteq> ADMIN then (Inl InsufficientPermissions, st)
      else case findUnique id' (issues st) of
        None \<Rightarrow> (Inl IssueNotFound, st)
      | Some i \<Rightarrow>
          (Inr (), st\<lparr>issues := deleteRow id' (issues st),
                      cache := cache_del (cache st) ''issues:*''\<rparr>))"

section \<open>Reading results\<close>

text \<open>Projections of a handler's answer that the properties below are stated with.\<close>

definition outcome :: "(failure + 'a) \<times> appState \<Rightarrow> failure option" where
  "outcome r = (case fst r of Inl e \<Rightarrow> Some e | Inr v \<Rightarrow> None)"

definition stored :: "string \<Rightarrow> (failure + 'a) \<times> appState \<Rightarrow> issue option" where
  "stored id' r = findUnique id' (issues (snd r))"

definition itemsOf :: "failure + listing \<Rightarrow> (issue \<times> string) list" where
  "itemsOf r = (case r of Inl e \<Rightarrow> [] | Inr l \<Rightarrow> items l)"

definition slaOf :: "failure + (issue \<times> string) \<Rightarrow> string option" where
  "slaOf r = (case r of Inl e \<Rightarrow> None | Inr v \<Rightarrow> Some (snd v))"

definition issueOf :: "failure + (issue \<times> string) \<Rightarrow> issue option" where
  "issueOf r = (case r of Inl e \<Rightarrow> None | Inr v \<Rightarrow> Some (fst v))"

text \<open>The cache key the list handler computes for a query.\<close>

definition listKey :: "authUser \<Rightarrow> issueQuery \<Rightarrow> string" where
  "listKey user q =
     (let pageNum = (case qPage q of None \<Rightarrow> Some 1 | Some n \<Rightarrow> n);
          limitNum = (case qLimit q of None \<Rightarrow> Some 10 | Some n \<Rightarrow> n)
      in cacheKey (buildWhere user q) (skipOf pageNum limitNum) limitNum)"

definition stepCount :: "LifecycleStep \<Rightarrow> issue \<Rightarrow> nat" where
  "stepCount s i = length (filter (\<lambda>r. step r = s) (lifecycle i))"

definition stepsOf :: "issue \<Rightarrow> (LifecycleStep \<times> LifecycleStatus) list" where
  "stepsOf i = map (\<lambda>r. (step r, stepStatus r)) (lifecycle i)"

text \<open>The two lifecycle rows of a new issue, the row a resolution adds, and the new issue.\<close>

definition firstRows :: "int \<Rightarrow> lifecycleRecord list" where
  "firstRows t =
     [\<lparr>step = REPORTED, stepStatus = COMPLETED, stepNotes = None, stepCreatedAt = t\<rparr>,
      \<lparr>step = ACKNOWLEDGED, stepStatus = CURRENT, stepNotes = None, stepCreatedAt = t\<rparr>]"

definition resolvedRow :: "int \<Rightarrow> lifecycleRecord" where
  "resolvedRow t = \<lparr>step = STEP_RESOLVED, stepStatus = COMPLETED, stepNotes = None, stepCreatedAt = t\<rparr>"

definition newIssue :: "int \<Rightarrow> string \<Rightarrow> authUser \<Rightarrow> createIssueBody \<Rightarrow> issue" where
  "newIssue now newId user b =
     \<lparr>issueId = newId, title = cTitle b, description = cDescription b, status = PENDING,
      priority = (case cPriority b of None \<Rightarrow> MEDIUM | Some p \<Rightarrow> p),
      department = cDepartment b, latitude = cLatitude b, longitude = cLongitude b,
      address = cAddress b, createdAt = now, updatedAt = now,
      reportedById = Some (userId user), assignedToId = None, lifecycle = firstRows now\<rparr>"

section \<open>Example data\<close>

text \<open>
  Users and issues in the manner of the seed script: an administrator, the head of
  Public Works, a team member of Public Works and one of the Sanitation Dept; two issues
  of Public Works and one of the Sanitation Dept. The cache starts empty.
\<close>

definition admin :: authUser where
  "admin = \<lparr>userId = ''u1'', email = ''admin@civiclens.com'', role = ADMIN, userDepartment = None\<rparr>"

definition deptHead :: authUser where
  "deptHead = \<lparr>userId = ''u2'', email = ''dept@civiclens.com'', role = DEPARTMENT_HEAD,
               userDepartment = Some ''Public Works''\<rparr>"

definition teamMember :: authUser where
  "teamMember = \<lparr>userId = ''u3'', email = ''member@civiclens.com'', role = TEAM_MEMBER,
                 userDepartment = Some ''Public Works''\<rparr>"

definition lisa :: authUser where
  "lisa = \<lparr>userId = ''u4'', email = ''lisa.chen@civiclens.com'', role = TEAM_MEMBER,
           userDepartment = Some ''Sanitation Dept''\<rparr>"

definition streetlight :: issue where
  "streetlight =
     \<lparr>issueId = ''i1'', title = ''Broken streetlight on Main Street'',
      description = ''The streetlight has been out for 3 days'',
      status = PENDING, priority = HIGH, department = ''Public Works'',
      latitude = 23.6139, longitude = 85.279, address = Some ''Main St, Ranchi'',
      createdAt = 1000, updatedAt = 1000, reportedById = Some ''u1'', assignedToId = None,
      lifecycle = firstRows 1000\<rparr>"

definition pothole :: issue where
  "pothole =
     \<lparr>issueId = ''i2'', title = ''Large pothole on Oak Avenue'',
      description = ''Deep pothole causing vehicle damage'',
      status = IN_PROGRESS, priority = CRITICAL, department = ''Public Works'',
      latitude = 23.3441, longitude = 85.3096, address = None,
      createdAt = 2000, updatedAt = 2000, reportedById = Some ''u1'', assignedToId = Some ''u3'',
      lifecycle = firstRows 2000
        @ [\<lparr>step = ASSIGNED, stepStatus = COMPLETED, stepNotes = None, stepCreatedAt = 2000\<rparr>]\<rparr>"

definition garbage :: issue where
  "garbage =
     \<lparr>issueId = ''i3'', title = ''Missed garbage collection'',
      description = ''Garbage was not collected on pickup day'',
      status = PENDING, priority = MEDIUM, department = ''Sanitation Dept'',
      latitude = 23.5041, longitude = 85.4298, address = Some ''Elm Street, Ranchi'',
      createdAt = 3000, updatedAt = 3000, reportedById = Some ''u2'', assignedToId = Some ''u4'',
      lifecycle = firstRows 3000
        @ [\<lparr>step = ASSIGNED, stepStatus = COMPLETED, stepNotes = None, stepCreatedAt = 3000\<rparr>]\<rparr>"

definition exampleState :: appState where
  "exampleState = \<lparr>issues = [streetlight, pothole, garbage],
                    userIds = [''u1'', ''u2'', ''u3'', ''u4''],
                    cache = (\<lambda>k. None)\<rparr>"

definition noQuery :: issueQuery where
  "noQuery = \<lparr>qPage = None, qLimit = None, qStatus = None, qPriority = None,
              qDepartment = None, qAssignedToId = None, qSearch = None\<rparr>"

definition noUpdates :: updateIssueBody where
  "noUpdates = \<lparr>uTitle = None, uDescription = None, uStatus = None, uPriority = None,
                uAssignedToId = None, uLifecycleCreate = None\<rparr>"

definition streetlightReport :: createIssueBody where
  "streetlightReport =
     \<lparr>cTitle = ''Broken streetlight'', cDescription = ''Out for three days'',
      cDepartment = ''Public Works'', cLatitude = 23.6139, cLongitude = 85.2790,
      cAddress = None, cPriority = Some CRITICAL\<rparr>"

text \<open>
  Request bodies: a resolution, a closure, a re-opening, and a body whose \<open>lifecycle\<close>
  key asks for a CITIZEN_VERIFIED row. States: no issue yet; after the administrator
  reported one CRITICAL issue; after that issue was resolved; after it was re-opened; the
  example state after the administrator listed the issues once.
\<close>

definition resolvePatch :: updateIssueBody where
  "resolvePatch = noUpdates\<lparr>uStatus := Some RESOLVED\<rparr>"

definition closePatch :: updateIssueBody where
  "closePatch = noUpdates\<lparr>uStatus := Some CLOSED\<rparr>"

definition verifyBody :: updateIssueBody where
  "verifyBody = noUpdates\<lparr>uLifecycleCreate :=
     Some [\<lparr>inStep = CITIZEN_VERIFIED, inStatus = Some COMPLETED, inNotes = None\<rparr>]\<rparr>"

definition emptyState :: appState where
  "emptyState = \<lparr>issues = [], userIds = [''u1'', ''u2'', ''u3'', ''u4''], cache = (\<lambda>k. None)\<rparr>"

definition reportedState :: appState where
  "reportedState = snd (createIssue 1000 ''i9'' admin streetlightReport emptyState)"

definition reopenPatch :: updateIssueBody where
  "reopenPatch = noUpdates\<lparr>uStatus := Some PENDING\<rparr>"

definition resolvedState :: appState where
  "resolvedState = snd (updateIssue 2000 admin ''i9'' resolvePatch reportedState)"

definition reopenedState :: appState where
  "reopenedState = snd (updateIssue 3000 admin ''i9'' reopenPatch resolvedState)"

definition listedState :: appState where
  "listedState = snd (listIssues 5000 admin noQuery exampleState)"

section \<open>Properties of calculateSLA\<close>

lemma maxHoursOf_spec:
  "priority' \<notin> set objectPrototypeNames \<Longrightarrow> maxHoursOf priority' = Some (spec_allowance priority')"
  by (simp add: maxHoursOf_def spec_allowance_def slaHours_def)

lemma calculateSLA_unfold:
  assumes "status' \<noteq> ''RESOLVED''" and "status' \<noteq> ''CLOSED''"
    and "maxHoursOf priority' = Some A"
  shows "calculateSLA now createdAt' status' priority' =
     (if (now - createdAt') div 3600000 > A then ''Overdue''
      else if A - (now - createdAt') div 3600000 \<le> 2
        then showInt (A - (now - createdAt') div 3600000) @ ''h left''
      else showInt ((A - (now - createdAt') div 3600000) div 24) @ ''d left'')"
  unfolding calculateSLA_def Let_def using assms by simp

lemma showInt_digits:
  "showInt 0 = ''0''" "showInt 1 = ''1''" "showInt 2 = ''2''" "showInt 3 = ''3''"
  by (simp_all add: showInt_def showNat.simps digitChar_def)

text \<open>
  Claim C7. Whatever the creation time, the priority and the clock, an issue whose status
  is RESOLVED or CLOSED has the SLA string "Closed".
\<close>

theorem calculateSLA_closed:
  "status' = ''RESOLVED'' \<or> status' = ''CLOSED'' \<Longrightarrow>
   calculateSLA now createdAt' status' priority' = ''Closed''"
  by (auto simp: calculateSLA_def Let_def)

theorem calculateSLA_closed_witness:
  "calculateSLA 900000000 0 ''RESOLVED'' ''CRITICAL'' = ''Closed''
   \<and> calculateSLA 900000000 0 ''CLOSED'' ''LOW'' = ''Closed''"
  using calculateSLA_closed [of "''RESOLVED''" 900000000 0 "''CRITICAL''"]
    calculateSLA_closed [of "''CLOSED''" 900000000 0 "''LOW''"]
  by simp

text \<open>
  Claim C8, as the code has it. Let H be the number of whole hours elapsed since
  creation, the floor of the elapsed milliseconds over 3 600 000 (the two time values
  within the range of exact arithmetic), and A the allowance of the priority: CRITICAL 4,
  HIGH 24, MEDIUM 72, LOW 168, and 72 for every other string that is not a member name
  the lookup table inherits. For a status other than RESOLVED and CLOSED the SLA string
  is "Overdue" when H > A; otherwise, with R = A - H, it is "Rh left" when R is at most 2
  and "Dd left", D the integer floor of R / 24, when R is more than 2.
\<close>

theorem calculateSLA_open:
  assumes "status' \<noteq> ''RESOLVED''" and "status' \<noteq> ''CLOSED''"
    and "priority' \<notin> set objectPrototypeNames"
    and "withinExactRange now createdAt'"
    and "H = (now - createdAt') div 3600000"
    and "A = spec_allowance priority'"
  shows "(H > A \<longrightarrow> calculateSLA now createdAt' status' priority' = ''Overdue'')
       \<and> (H \<le> A \<and> A - H \<le> 2 \<longrightarrow>
            calculateSLA now createdAt' status' priority' = showInt (A - H) @ ''h left'')
       \<and> (H \<le> A \<and> A - H > 2 \<longrightarrow>
            calculateSLA now createdAt' status' priority' = showInt ((A - H) div 24) @ ''d left'')"
proof -
  have m: "maxHoursOf priority' = Some A"
    using maxHoursOf_spec [OF assms(3)] assms(6) by simp
  show ?thesis
    unfolding calculateSLA_unfold [OF assms(1,2) m] assms(5) [symmetric]
    by auto
qed

theorem calculateSLA_open_witness:
  "calculateSLA 18000000 0 ''PENDING'' ''CRITICAL'' = ''Overdue''
   \<and> calculateSLA 7200000 0 ''IN_PROGRESS'' ''CRITICAL'' = ''2h left''
   \<and> calculateSLA 0 0 ''PENDING'' ''URGENT'' = ''3d left''"
proof -
  have a: "4 = spec_allowance ''CRITICAL''" "72 = spec_allowance ''URGENT''"
    by (simp_all add: spec_allowance_def)
  have n: "''CRITICAL'' \<notin> set objectPrototypeNames" "''URGENT'' \<notin> set objectPrototypeNames"
    by (simp_all add: objectPrototypeNames_def)
  have r: "withinExactRange 18000000 0" "withinExactRange 7200000 0" "withinExactRange 0 0"
    by (simp_all add: withinExactRange_def)
  have "calculateSLA 18000000 0 ''PENDING'' ''CRITICAL'' = ''Overdue''"
    using calculateSLA_open [OF _ _ n(1) r(1) _ a(1), of "''PENDING''" 5] by simp
  moreover have "calculateSLA 7200000 0 ''IN_PROGRESS'' ''CRITICAL'' = ''2h left''"
    using calculateSLA_open [OF _ _ n(1) r(2) _ a(1), of "''IN_PROGRESS''" 2]
    by (simp add: showInt_digits)
  moreover have "calculateSLA 0 0 ''PENDING'' ''URGENT'' = ''3d left''"
    using calculateSLA_open [OF _ _ n(2) r(3) _ a(2), of "''PENDING''" 0]
    by (simp add: showInt_digits)
  ultimately show ?thesis by simp
qed

text \<open>
  The claim as stated fails for an elapsed time that is more than the allowance by less
  than an hour, and for a priority string that is a member name the lookup table
  inherits: four and a half hours after its creation a CRITICAL issue reads "0h left",
  not "Overdue", and with the priority \<open>toString\<close> a new issue reads "NaNd left", not
  "3d left".
\<close>

theorem overdue_only_after_a_whole_hour:
  "4 * 3600000 < (16200000::int) - 0
   \<and> calculateSLA 16200000 0 ''PENDING'' ''CRITICAL'' = ''0h left''
   \<and> calculateSLA 0 0 ''PENDING'' ''toString'' = ''NaNd left''"
  by code_simp

section \<open>Facts about the repository and the handlers\<close>

lemma findUnique_issueId: "findUnique id' rows = Some r \<Longrightarrow> issueId r = id'"
  by (induction rows) (auto split: if_splits)

lemma findUnique_replaceRow:
  "findUnique id' rows = Some cur \<Longrightarrow> issueId new = id' \<Longrightarrow>
   findUnique id' (replaceRow id' new rows) = Some new"
  by (induction rows) auto

lemma findUnique_None: "(findUnique id' rows = None) = (id' \<notin> set (map issueId rows))"
  by (induction rows) auto

lemma findUnique_append_new:
  "id' \<notin> set (map issueId rows) \<Longrightarrow> issueId i = id' \<Longrightarrow> findUnique id' (rows @ [i]) = Some i"
  by (induction rows) auto

lemma issueId_applyUpdate [simp]: "issueId (applyUpdate now u rows i) = issueId i"
  by (simp add: applyUpdate_def)

lemma accessDenied_cong:
  "assignedToId i = assignedToId j \<Longrightarrow> department i = department j \<Longrightarrow>
   accessDenied user i = accessDenied user j"
  by (simp add: accessDenied_def)

lemma updateIssue_accepted:
  assumes "updateIssueSchema updates" and "findUnique id' (issues st) = Some cur"
    and "\<not> accessDenied user cur" and "foreignKeyOk updates st"
  shows "updateIssue now user id' updates st =
     (Inr (lifecycleAsc (applyUpdate now updates (lifecycleWrite updates cur) cur)),
      st\<lparr>issues := replaceRow id' (applyUpdate now updates (lifecycleWrite updates cur) cur) (issues st),
         cache := cache_del (cache st) ''issues:*''\<rparr>)"
  using assms by (simp add: updateIssue_def Let_def)

lemma updateIssue_denied:
  assumes "updateIssueSchema updates" and "findUnique id' (issues st) = Some cur"
    and "accessDenied user cur"
  shows "updateIssue now user id' updates st = (Inl AccessDenied, st)"
  using assms by (simp add: updateIssue_def)

lemma stored_after_update:
  assumes "updateIssueSchema updates" and "findUnique id' (issues st) = Some cur"
    and "\<not> accessDenied user cur" and "foreignKeyOk updates st"
  shows "findUnique id' (issues (snd (updateIssue now user id' updates st)))
         = Some (applyUpdate now updates (lifecycleWrite updates cur) cur)"
  using assms findUnique_issueId [OF assms(2)]
  by (simp add: updateIssue_accepted findUnique_replaceRow)

lemma length_filter_sort_key:
  "length (filter P (sort_key f xs)) = length (filter P xs)"
  by (simp add: filter_sort)

lemma stepCount_lifecycleAsc [simp]: "stepCount s (lifecycleAsc i) = stepCount s i"
  by (simp add: stepCount_def lifecycleAsc_def length_filter_sort_key)

lemma resolvePatch_ok [simp]:
  "updateIssueSchema resolvePatch" "foreignKeyOk resolvePatch st"
  by (simp_all add: resolvePatch_def noUpdates_def updateIssueSchema_def foreignKeyOk_def)

lemma resolvePatch_write:
  "lifecycleWrite resolvePatch i =
     (if status i \<noteq> RESOLVED
      then [\<lparr>inStep = STEP_RESOLVED, inStatus = Some COMPLETED, inNotes = None\<rparr>] else [])"
  by (simp add: lifecycleWrite_def lifecycleUpdates_def resolvePatch_def noUpdates_def truthy_def)

lemma resolvePatch_apply:
  "applyUpdate t resolvePatch rows i =
     i\<lparr>status := RESOLVED, updatedAt := t, lifecycle := lifecycle i @ map (newLifecycleRow t) rows\<rparr>"
  by (simp add: applyUpdate_def setsColumn_def resolvePatch_def noUpdates_def)

lemma outcome_simps [simp]:
  "outcome (Inl e, st) = Some e" "outcome (Inr v, st) = None"
  by (simp_all add: outcome_def)

lemma stored_simp [simp]: "stored id' (r, st) = findUnique id' (issues st)"
  by (simp add: stored_def)

lemma closePatch_ok [simp]:
  "updateIssueSchema closePatch" "foreignKeyOk closePatch st"
  by (simp_all add: closePatch_def noUpdates_def updateIssueSchema_def foreignKeyOk_def)

lemma closePatch_apply:
  "applyUpdate t closePatch (lifecycleWrite closePatch i) i = i\<lparr>status := CLOSED, updatedAt := t\<rparr>"
  by (simp add: applyUpdate_def setsColumn_def lifecycleWrite_def lifecycleUpdates_def closePatch_def
      noUpdates_def truthy_def)

lemma map_replaceRow:
  "findUnique id' rows = Some cur \<Longrightarrow> f new = f cur \<Longrightarrow> map f (replaceRow id' new rows) = map f rows"
  by (induction rows) (auto split: if_splits)

lemma own_rows_not_verified:
  "filter (\<lambda>r. step r = CITIZEN_VERIFIED) (map (newLifecycleRow now) (lifecycleUpdates u i)) = []"
  by (simp add: lifecycleUpdates_def newLifecycleRow_def)

lemma lifecycleWrite_schema_only:
  "uLifecycleCreate u = None \<Longrightarrow> lifecycleWrite u i = lifecycleUpdates u i"
  by (simp add: lifecycleWrite_def)

lemma stepCount_applyUpdate_schema_only:
  "uLifecycleCreate u = None \<Longrightarrow>
   stepCount CITIZEN_VERIFIED (applyUpdate now u (lifecycleWrite u i) i) = stepCount CITIZEN_VERIFIED i"
  by (simp add: stepCount_def applyUpdate_def lifecycleWrite_schema_only own_rows_not_verified)

lemma createIssue_accepted:
  assumes "createIssueSchema b" and "newId \<notin> set (map issueId (issues st))"
  shows "createIssue now newId user b st =
     (Inr (newIssue now newId user b),
      st\<lparr>issues := issues st @ [newIssue now newId user b],
         cache := cache_del (cache st) ''issues:*''\<rparr>)"
  using assms by (simp add: createIssue_def newIssue_def firstRows_def Let_def)

lemma stored_after_create:
  assumes "createIssueSchema b" and "newId \<notin> set (map issueId (issues st))"
  shows "findUnique newId (issues (snd (createIssue now newId user b st))) = Some (newIssue now newId user b)"
  using assms by (simp add: createIssue_accepted findUnique_append_new newIssue_def)

lemma lifecycleAsc_newIssue: "lifecycleAsc (newIssue now newId user b) = newIssue now newId user b"
  by (simp add: lifecycleAsc_def newIssue_def firstRows_def)

lemma accessDenied_newIssue:
  "accessDenied user (newIssue now newId user b) =
     (role user = TEAM_MEMBER \<or> (role user = DEPARTMENT_HEAD \<and> userDepartment user \<noteq> Some (cDepartment b)))"
  by (auto simp: accessDenied_def newIssue_def)

lemma sla_critical:
  "calculateSLA now now ''PENDING'' ''CRITICAL'' = ''0d left''"
  "calculateSLA (now + 18000000) now ''PENDING'' ''CRITICAL'' = ''Overdue''"
  by (simp_all add: calculateSLA_def maxHoursOf_def slaHours_def showInt_digits)

section \<open>Authorization of updates\<close>

text \<open>
  Claim C2, as the code has it. The update handler checks the scope of the actor and
  nothing per field. For a TEAM_MEMBER, an existing issue and a body that passes the
  schema and sets \<open>priority\<close>: when the issue is not assigned to the actor the request
  fails with 403 Access denied and the state is unchanged; when it is assigned to the
  actor (and a given assignee exists) the request succeeds and the stored priority is
  the new one.
\<close>

theorem updateIssue_team_member:
  assumes "role user = TEAM_MEMBER" and "findUnique id' (issues st) = Some cur"
    and "updateIssueSchema updates" and "uPriority updates = Some p"
  shows "(assignedToId cur \<noteq> Some (userId user) \<longrightarrow>
            updateIssue now user id' updates st = (Inl AccessDenied, st))
       \<and> (assignedToId cur = Some (userId user) \<and> foreignKeyOk updates st \<longrightarrow>
            outcome (updateIssue now user id' updates st) = None
            \<and> map_option priority (stored id' (updateIssue now user id' updates st)) = Some p)"
proof (intro conjI impI)
  assume "assignedToId cur \<noteq> Some (userId user)"
  then have "accessDenied user cur"
    using assms(1) by (simp add: accessDenied_def)
  then show "updateIssue now user id' updates st = (Inl AccessDenied, st)"
    by (rule updateIssue_denied [OF assms(3,2)])
next
  assume h: "assignedToId cur = Some (userId user) \<and> foreignKeyOk updates st"
  then have ok: "\<not> accessDenied user cur"
    using assms(1) by (simp add: accessDenied_def)
  show "outcome (updateIssue now user id' updates st) = None"
    using h by (simp add: updateIssue_accepted [OF assms(3,2) ok])
  show "map_option priority (stored id' (updateIssue now user id' updates st)) = Some p"
    using h assms(4) by (simp add: stored_def stored_after_update [OF assms(3,2) ok] applyUpdate_def)
qed

theorem updateIssue_team_member_witness:
  "updateIssue 9000 teamMember ''i3'' (noUpdates\<lparr>uPriority := Some LOW\<rparr>) exampleState
     = (Inl AccessDenied, exampleState)
   \<and> outcome (updateIssue 9000 teamMember ''i2'' (noUpdates\<lparr>uPriority := Some LOW\<rparr>) exampleState) = None
   \<and> map_option priority
        (stored ''i2'' (updateIssue 9000 teamMember ''i2'' (noUpdates\<lparr>uPriority := Some LOW\<rparr>) exampleState))
      = Some LOW"
proof -
  have r: "role teamMember = TEAM_MEMBER" by (simp add: teamMember_def)
  have f3: "findUnique ''i3'' (issues exampleState) = Some garbage"
    and f2: "findUnique ''i2'' (issues exampleState) = Some pothole"
    by (simp_all add: exampleState_def streetlight_def pothole_def garbage_def)
  have v: "updateIssueSchema (noUpdates\<lparr>uPriority := Some LOW\<rparr>)"
    and p: "uPriority (noUpdates\<lparr>uPriority := Some LOW\<rparr>) = Some LOW"
    and k: "foreignKeyOk (noUpdates\<lparr>uPriority := Some LOW\<rparr>) exampleState"
    by (simp_all add: updateIssueSchema_def noUpdates_def foreignKeyOk_def)
  have a3: "assignedToId garbage \<noteq> Some (userId teamMember)"
    and a2: "assignedToId pothole = Some (userId teamMember)"
    by (simp_all add: garbage_def pothole_def teamMember_def)
  show ?thesis
    using updateIssue_team_member [OF r f3 v p, of 9000] updateIssue_team_member [OF r f2 v p, of 9000]
      a3 a2 k
    by blast
qed

text \<open>
  The claim as stated fails: the team member u3 lowers the priority of the issue i2,
  which is assigned to u3, from CRITICAL to LOW.
\<close>

theorem team_member_changes_priority:
  "role teamMember = TEAM_MEMBER
   \<and> map_option priority (findUnique ''i2'' (issues exampleState)) = Some CRITICAL
   \<and> outcome (updateIssue 9000 teamMember ''i2'' (noUpdates\<lparr>uPriority := Some LOW\<rparr>) exampleState) = None
   \<and> map_option priority
        (stored ''i2'' (updateIssue 9000 teamMember ''i2'' (noUpdates\<lparr>uPriority := Some LOW\<rparr>) exampleState))
      = Some LOW"
  by code_simp

section \<open>Status updates and the lifecycle\<close>

text \<open>
  Claim C3, as the code has it. The handler has no rule about the status an issue is
  in: for an existing issue and an actor that passes the scope check, the update
  \<open>{ status: 'CLOSED' }\<close> succeeds from every status; the stored row is the old one
  with status CLOSED and a new \<open>updatedAt\<close>, its lifecycle unchanged.
\<close>

theorem updateIssue_close:
  assumes "findUnique id' (issues st) = Some cur" and "\<not> accessDenied user cur"
  shows "outcome (updateIssue now user id' closePatch st) = None
       \<and> stored id' (updateIssue now user id' closePatch st) = Some (cur\<lparr>status := CLOSED, updatedAt := now\<rparr>)"
proof -
  have "updateIssue now user id' closePatch st =
          (Inr (lifecycleAsc (cur\<lparr>status := CLOSED, updatedAt := now\<rparr>)),
           st\<lparr>issues := replaceRow id' (cur\<lparr>status := CLOSED, updatedAt := now\<rparr>) (issues st),
              cache := cache_del (cache st) ''issues:*''\<rparr>)"
    using assms by (simp add: updateIssue_accepted closePatch_apply)
  moreover have "findUnique id' (replaceRow id' (cur\<lparr>status := CLOSED, updatedAt := now\<rparr>) (issues st))
                 = Some (cur\<lparr>status := CLOSED, updatedAt := now\<rparr>)"
    using assms(1) findUnique_issueId [OF assms(1)] by (simp add: findUnique_replaceRow)
  ultimately show ?thesis by simp
qed

theorem updateIssue_close_witness:
  "outcome (updateIssue 9000 deptHead ''i1'' closePatch exampleState) = None
   \<and> stored ''i1'' (updateIssue 9000 deptHead ''i1'' closePatch exampleState)
       = Some (streetlight\<lparr>status := CLOSED, updatedAt := 9000\<rparr>)"
proof -
  have f: "findUnique ''i1'' (issues exampleState) = Some streetlight"
    by (simp add: exampleState_def streetlight_def)
  have a: "\<not> accessDenied deptHead streetlight"
    by (simp add: accessDenied_def deptHead_def streetlight_def)
  show ?thesis
    using updateIssue_close [OF f a, of 9000] by simp
qed

text \<open>
  The claim as stated fails: an issue that was reported and never resolved is closed by
  one update; it is CLOSED with the two lifecycle rows of its creation.
\<close>

theorem close_without_resolution:
  "map_option status (findUnique ''i9'' (issues reportedState)) = Some PENDING
   \<and> outcome (updateIssue 2000 admin ''i9'' closePatch reportedState) = None
   \<and> map_option status (stored ''i9'' (updateIssue 2000 admin ''i9'' closePatch reportedState)) = Some CLOSED
   \<and> map_option stepsOf (stored ''i9'' (updateIssue 2000 admin ''i9'' closePatch reportedState))
       = Some [(REPORTED, COMPLETED), (ACKNOWLEDGED, CURRENT)]"
  by code_simp

text \<open>
  Claim C4, as the code has it. The handler has no CITIZEN_VERIFIED step of its own and
  no guard on the lifecycle: with a body made of the schema's fields an update changes
  the number of CITIZEN_VERIFIED rows of no issue (the rows it adds are ASSIGNED and
  RESOLVED ones), whatever the outcome of the request.
\<close>

theorem updateIssue_adds_no_citizen_verified:
  assumes "uLifecycleCreate updates = None"
  shows "map (stepCount CITIZEN_VERIFIED) (issues (snd (updateIssue now user id' updates st)))
         = map (stepCount CITIZEN_VERIFIED) (issues st)"
proof (cases "updateIssueSchema updates \<and> foreignKeyOk updates st")
  case False
  then show ?thesis
    by (auto simp: updateIssue_def split: option.splits)
next
  case True
  show ?thesis
  proof (cases "findUnique id' (issues st)")
    case None
    then show ?thesis by (simp add: updateIssue_def)
  next
    case (Some cur)
    show ?thesis
    proof (cases "accessDenied user cur")
      case True
      then show ?thesis using Some by (simp add: updateIssue_def)
    next
      case False
      with True Some show ?thesis
        by (simp add: updateIssue_accepted map_replaceRow stepCount_applyUpdate_schema_only [OF assms])
    qed
  qed
qed

theorem updateIssue_adds_no_citizen_verified_witness:
  "map (stepCount CITIZEN_VERIFIED) (issues (snd (updateIssue 9000 admin ''i1'' resolvePatch exampleState)))
   = [0, 0, 0]"
proof -
  have "uLifecycleCreate resolvePatch = None"
    by (simp add: resolvePatch_def noUpdates_def)
  from updateIssue_adds_no_citizen_verified [OF this, of 9000 admin "''i1''" exampleState]
  show ?thesis
    by (simp add: exampleState_def stepCount_def streetlight_def pothole_def garbage_def firstRows_def)
qed

text \<open>
  The claim as stated fails: a body with a nested \<open>lifecycle.create\<close> of a
  CITIZEN_VERIFIED row is accepted for an issue that has no RESOLVED row, and the row is
  stored.
\<close>

theorem citizen_verified_before_resolution:
  "map_option stepsOf (findUnique ''i9'' (issues reportedState))
     = Some [(REPORTED, COMPLETED), (ACKNOWLEDGED, CURRENT)]
   \<and> outcome (updateIssue 2000 admin ''i9'' verifyBody reportedState) = None
   \<and> map_option stepsOf (stored ''i9'' (updateIssue 2000 admin ''i9'' verifyBody reportedState))
       = Some [(REPORTED, COMPLETED), (ACKNOWLEDGED, CURRENT), (CITIZEN_VERIFIED, COMPLETED)]"
  by code_simp

text \<open>
  Claim C5, as the code has it. For an existing issue and an actor that passes the scope
  check, two updates \<open>{ status: 'RESOLVED' }\<close> in sequence both succeed. The handler
  decides by the status column: the first call appends one RESOLVED row with status
  COMPLETED unless the status is RESOLVED already, the second call appends nothing. The
  issue has as many RESOLVED rows more than before as the first call added: one, or none
  when it was RESOLVED already. It has exactly one after the two calls when it had none
  and was not RESOLVED.
\<close>

theorem updateIssue_resolved_twice:
  assumes found: "findUnique id' (issues st) = Some cur"
    and allowed: "\<not> accessDenied user cur"
    and added: "added = (if status cur = RESOLVED then [] else [resolvedRow t1])"
  shows "\<exists>i1 st1 i2 st2.
           updateIssue t1 user id' resolvePatch st = (Inr i1, st1)
         \<and> updateIssue t2 user id' resolvePatch st1 = (Inr i2, st2)
         \<and> map_option lifecycle (findUnique id' (issues st1)) = Some (lifecycle cur @ added)
         \<and> map_option lifecycle (findUnique id' (issues st2)) = Some (lifecycle cur @ added)
         \<and> stepCount STEP_RESOLVED i2 = stepCount STEP_RESOLVED cur + length added
         \<and> (status cur \<noteq> RESOLVED \<and> stepCount STEP_RESOLVED cur = 0 \<longrightarrow> stepCount STEP_RESOLVED i2 = 1)"
proof -
  define n1 where "n1 = applyUpdate t1 resolvePatch (lifecycleWrite resolvePatch cur) cur"
  define s1 where "s1 = snd (updateIssue t1 user id' resolvePatch st)"
  define n2 where "n2 = applyUpdate t2 resolvePatch (lifecycleWrite resolvePatch n1) n1"
  define s2 where "s2 = snd (updateIssue t2 user id' resolvePatch s1)"
  have first: "updateIssue t1 user id' resolvePatch st = (Inr (lifecycleAsc n1), s1)"
    unfolding s1_def n1_def using found allowed by (simp add: updateIssue_accepted)
  have stored1: "findUnique id' (issues s1) = Some n1"
    unfolding s1_def n1_def using found allowed by (simp add: stored_after_update)
  have life1: "lifecycle n1 = lifecycle cur @ added" and stat1: "status n1 = RESOLVED"
    unfolding n1_def added
    by (simp_all add: resolvePatch_write resolvePatch_apply newLifecycleRow_def resolvedRow_def)
  have "assignedToId n1 = assignedToId cur" "department n1 = department cur"
    unfolding n1_def by (simp_all add: resolvePatch_apply)
  then have allowed1: "\<not> accessDenied user n1"
    using allowed accessDenied_cong by blast
  have second: "updateIssue t2 user id' resolvePatch s1 = (Inr (lifecycleAsc n2), s2)"
    unfolding n2_def s2_def using stored1 allowed1 by (simp add: updateIssue_accepted)
  have stored2: "findUnique id' (issues s2) = Some n2"
    unfolding n2_def s2_def using stored1 allowed1 by (simp add: stored_after_update)
  have life2: "lifecycle n2 = lifecycle n1"
    unfolding n2_def using stat1 by (simp add: resolvePatch_write resolvePatch_apply)
  have "stepCount STEP_RESOLVED n2 = stepCount STEP_RESOLVED cur + length added"
    by (simp add: stepCount_def life2 life1 added resolvedRow_def)
  then have count: "stepCount STEP_RESOLVED (lifecycleAsc n2) = stepCount STEP_RESOLVED cur + length added"
    by simp
  have one: "status cur \<noteq> RESOLVED \<and> stepCount STEP_RESOLVED cur = 0
             \<longrightarrow> stepCount STEP_RESOLVED (lifecycleAsc n2) = 1"
    using count by (simp add: added)
  show ?thesis
  proof (intro exI conjI)
    show "updateIssue t1 user id' resolvePatch st = (Inr (lifecycleAsc n1), s1)"
      by (rule first)
    show "updateIssue t2 user id' resolvePatch s1 = (Inr (lifecycleAsc n2), s2)"
      by (rule second)
    show "map_option lifecycle (findUnique id' (issues s1)) = Some (lifecycle cur @ added)"
      by (simp add: stored1 life1)
    show "map_option lifecycle (findUnique id' (issues s2)) = Some (lifecycle cur @ added)"
      by (simp add: stored2 life2 life1)
    show "stepCount STEP_RESOLVED (lifecycleAsc n2) = stepCount STEP_RESOLVED cur + length added"
      by (rule count)
    show "status cur \<noteq> RESOLVED \<and> stepCount STEP_RESOLVED cur = 0
          \<longrightarrow> stepCount STEP_RESOLVED (lifecycleAsc n2) = 1"
      by (rule one)
  qed
qed

theorem updateIssue_resolved_twice_witness:
  "\<exists>i1 st1 i2 st2.
      updateIssue 4000 admin ''i1'' resolvePatch exampleState = (Inr i1, st1)
    \<and> updateIssue 5000 admin ''i1'' resolvePatch st1 = (Inr i2, st2)
    \<and> map_option lifecycle (findUnique ''i1'' (issues st1)) = Some (firstRows 1000 @ [resolvedRow 4000])
    \<and> map_option lifecycle (findUnique ''i1'' (issues st2)) = Some (firstRows 1000 @ [resolvedRow 4000])
    \<and> stepCount STEP_RESOLVED i2 = 1"
proof -
  have f: "findUnique ''i1'' (issues exampleState) = Some streetlight"
    by (simp add: exampleState_def streetlight_def)
  have a: "\<not> accessDenied admin streetlight"
    by (simp add: accessDenied_def admin_def)
  have u: "[resolvedRow 4000] = (if status streetlight = RESOLVED then [] else [resolvedRow 4000])"
    by (simp add: streetlight_def)
  have l: "lifecycle streetlight = firstRows 1000" "stepCount STEP_RESOLVED streetlight = 0"
    by (simp_all add: streetlight_def stepCount_def firstRows_def)
  show ?thesis
    using updateIssue_resolved_twice [OF f a u, of 5000] by (simp add: l) blast
qed

text \<open>
  The claim as stated fails: an issue that was resolved and then re-opened (status
  PENDING, one RESOLVED row) has two RESOLVED rows after the two calls.
\<close>

theorem second_resolution_adds_second_row:
  "outcome (updateIssue 2000 admin ''i9'' resolvePatch reportedState) = None
   \<and> outcome (updateIssue 3000 admin ''i9'' reopenPatch resolvedState) = None
   \<and> map_option status (findUnique ''i9'' (issues reopenedState)) = Some PENDING
   \<and> map_option (stepCount STEP_RESOLVED) (findUnique ''i9'' (issues reopenedState)) = Some 1
   \<and> outcome (updateIssue 4000 admin ''i9'' resolvePatch reopenedState) = None
   \<and> outcome (updateIssue 5000 admin ''i9'' resolvePatch
         (snd (updateIssue 4000 admin ''i9'' resolvePatch reopenedState))) = None
   \<and> map_option (stepCount STEP_RESOLVED)
        (stored ''i9'' (updateIssue 5000 admin ''i9'' resolvePatch
           (snd (updateIssue 4000 admin ''i9'' resolvePatch reopenedState)))) = Some 2"
  by code_simp

section \<open>Creation\<close>

text \<open>
  Claim C6, as the code has it. A valid report with a fresh id is stored. Read back by
  its reporter, an ADMIN or a DEPARTMENT_HEAD of the issue's department gets the issue
  with status PENDING and the lifecycle REPORTED (COMPLETED), ACKNOWLEDGED (CURRENT); a
  TEAM_MEMBER, to whom the new issue is not assigned, and a DEPARTMENT_HEAD of another
  department get 403 Access denied.
\<close>

theorem createIssue_then_getIssue:
  assumes "createIssueSchema b" and "newId \<notin> set (map issueId (issues st))"
  shows "\<exists>i st'. createIssue now newId user b st = (Inr i, st') \<and> issueId i = newId
       \<and> (role user = ADMIN \<or> (role user = DEPARTMENT_HEAD \<and> userDepartment user = Some (cDepartment b)) \<longrightarrow>
            (\<exists>g. issueOf (getIssue now' user newId st') = Some g \<and> status g = PENDING
                 \<and> stepsOf g = [(REPORTED, COMPLETED), (ACKNOWLEDGED, CURRENT)]))
       \<and> (role user = TEAM_MEMBER \<or> (role user = DEPARTMENT_HEAD \<and> userDepartment user \<noteq> Some (cDepartment b)) \<longrightarrow>
            getIssue now' user newId st' = Inl AccessDenied)"
proof -
  let ?i = "newIssue now newId user b"
  let ?st = "st\<lparr>issues := issues st @ [?i], cache := cache_del (cache st) ''issues:*''\<rparr>"
  have created: "createIssue now newId user b st = (Inr ?i, ?st)"
    by (rule createIssue_accepted [OF assms])
  have ident: "issueId ?i = newId"
    by (simp add: newIssue_def)
  have found: "findUnique newId (issues ?st) = Some ?i"
    using stored_after_create [OF assms, of now user] by (simp add: createIssue_accepted [OF assms])
  have fresh: "status ?i = PENDING" "stepsOf ?i = [(REPORTED, COMPLETED), (ACKNOWLEDGED, CURRENT)]"
    by (simp_all add: newIssue_def stepsOf_def firstRows_def)
  have visible: "issueOf (getIssue now' user newId ?st) = Some ?i"
    if "role user = ADMIN \<or> (role user = DEPARTMENT_HEAD \<and> userDepartment user = Some (cDepartment b))"
  proof -
    from that have "\<not> accessDenied user ?i"
      by (auto simp: accessDenied_newIssue)
    then show ?thesis
      using found by (simp add: getIssue_def issueOf_def withSLA_def lifecycleAsc_newIssue)
  qed
  have hidden: "getIssue now' user newId ?st = Inl AccessDenied"
    if "role user = TEAM_MEMBER \<or> (role user = DEPARTMENT_HEAD \<and> userDepartment user \<noteq> Some (cDepartment b))"
  proof -
    from that have "accessDenied user ?i"
      by (simp add: accessDenied_newIssue)
    then show ?thesis
      using found by (simp add: getIssue_def)
  qed
  show ?thesis
    apply (rule exI [of _ ?i])
    apply (rule exI [of _ ?st])
    using created ident fresh visible hidden by blast
qed


theorem createIssue_then_getIssue_witness:
  "\<exists>i st'. createIssue 10000 ''i4'' admin streetlightReport exampleState = (Inr i, st') \<and> issueId i = ''i4''
      \<and> (\<exists>g. issueOf (getIssue 20000 admin ''i4'' st') = Some g \<and> status g = PENDING
              \<and> stepsOf g = [(REPORTED, COMPLETED), (ACKNOWLEDGED, CURRENT)])"
proof -
  have v: "createIssueSchema streetlightReport"
    by (simp add: createIssueSchema_def streetlightReport_def)
  have f: "''i4'' \<notin> set (map issueId (issues exampleState))"
    by (simp add: exampleState_def streetlight_def pothole_def garbage_def)
  have r: "role admin = ADMIN"
    by (simp add: admin_def)
  show ?thesis
    using createIssue_then_getIssue [OF v f, of 10000 admin 20000] r by auto
qed

text \<open>
  The claim as stated fails: the team member u3 reports an issue and is refused when
  reading it back.
\<close>

theorem reporter_cannot_read_own_issue:
  "role teamMember = TEAM_MEMBER
   \<and> outcome (createIssue 10000 ''i4'' teamMember streetlightReport exampleState) = None
   \<and> getIssue 10000 teamMember ''i4'' (snd (createIssue 10000 ''i4'' teamMember streetlightReport exampleState))
       = Inl AccessDenied"
  by code_simp

text \<open>
  Claim C9, as the code has it. An administrator reports a CRITICAL issue at time
  \<open>now\<close>: its status is PENDING and its SLA string at \<open>now\<close> is "0d left" (four
  hours remain, more than 2, and the floor of 4 / 24 is 0); five hours later the SLA
  string is "Overdue"; after an update to RESOLVED it is "Closed" at any time.
\<close>

theorem critical_issue_scenario:
  assumes "createIssueSchema b" and "cPriority b = Some CRITICAL"
    and "newId \<notin> set (map issueId (issues st))" and "role user = ADMIN"
    and "created = createIssue now newId user b st"
    and "resolved = updateIssue t user newId resolvePatch (snd created)"
  shows "outcome created = None
       \<and> map_option status (stored newId created) = Some PENDING
       \<and> slaOf (getIssue now user newId (snd created)) = Some ''0d left''
       \<and> slaOf (getIssue (now + 5 * 3600000) user newId (snd created)) = Some ''Overdue''
       \<and> outcome resolved = None
       \<and> slaOf (getIssue t' user newId (snd resolved)) = Some ''Closed''"
proof -
  let ?i = "newIssue now newId user b"
  have c: "created = (Inr ?i, snd created)"
    unfolding assms(5) by (simp add: createIssue_accepted [OF assms(1,3)])
  have found: "findUnique newId (issues (snd created)) = Some ?i"
    unfolding assms(5) by (rule stored_after_create [OF assms(1,3)])
  have allowed: "\<not> accessDenied user ?i"
    using assms(4) by (simp add: accessDenied_newIssue)
  have fields: "status ?i = PENDING" "priority ?i = CRITICAL" "createdAt ?i = now"
    using assms(2) by (simp_all add: newIssue_def)
  have get: "getIssue n user newId (snd created) = Inr (withSLA n ?i)" for n
    using found allowed by (simp add: getIssue_def lifecycleAsc_newIssue)
  have sla: "snd (withSLA n ?i) = calculateSLA n now ''PENDING'' ''CRITICAL''" for n
    by (simp add: withSLA_def fields)
  let ?r = "applyUpdate t resolvePatch (lifecycleWrite resolvePatch ?i) ?i"
  have r: "resolved = (Inr (lifecycleAsc ?r), snd resolved)"
    unfolding assms(6) using found allowed by (simp add: updateIssue_accepted)
  have found': "findUnique newId (issues (snd resolved)) = Some ?r"
    unfolding assms(6) using found allowed by (simp add: stored_after_update)
  have allowed': "\<not> accessDenied user ?r"
    using assms(4) by (simp add: accessDenied_def)
  have closed: "status (lifecycleAsc ?r) = RESOLVED"
    by (simp add: resolvePatch_apply lifecycleAsc_def)
  have get': "slaOf (getIssue t' user newId (snd resolved)) = Some ''Closed''"
    using found' allowed' closed
    by (simp add: getIssue_def slaOf_def withSLA_def calculateSLA_def)
  have "outcome created = None"
    by (subst c) simp
  moreover have "map_option status (stored newId created) = Some PENDING"
    by (simp add: stored_def found fields)
  moreover have "slaOf (getIssue now user newId (snd created)) = Some ''0d left''"
    by (simp add: get slaOf_def sla sla_critical)
  moreover have "slaOf (getIssue (now + 5 * 3600000) user newId (snd created)) = Some ''Overdue''"
    by (simp add: get slaOf_def sla sla_critical)
  moreover have "outcome resolved = None"
    by (subst r) simp
  ultimately show ?thesis
    using get' by simp
qed

theorem critical_issue_scenario_witness:
  "outcome (createIssue 1000 ''i9'' admin streetlightReport emptyState) = None
   \<and> map_option status (stored ''i9'' (createIssue 1000 ''i9'' admin streetlightReport emptyState)) = Some PENDING
   \<and> slaOf (getIssue 1000 admin ''i9'' reportedState) = Some ''0d left''
   \<and> slaOf (getIssue 18001000 admin ''i9'' reportedState) = Some ''Overdue''
   \<and> outcome (updateIssue 18002000 admin ''i9'' resolvePatch reportedState) = None
   \<and> slaOf (getIssue 18003000 admin ''i9'' (snd (updateIssue 18002000 admin ''i9'' resolvePatch reportedState)))
       = Some ''Closed''"
proof -
  have v: "createIssueSchema streetlightReport" and p: "cPriority streetlightReport = Some CRITICAL"
    by (simp_all add: createIssueSchema_def streetlightReport_def)
  have f: "''i9'' \<notin> set (map issueId (issues emptyState))"
    by (simp add: emptyState_def)
  have r: "role admin = ADMIN"
    by (simp add: admin_def)
  show ?thesis
    using critical_issue_scenario [OF v p f r refl refl, of 1000 18002000 18003000]
    by (simp add: reportedState_def)
qed

text \<open>
  The claim as stated fails: at the time of creation the SLA string of the CRITICAL
  issue is "0d left", not "4h left".
\<close>

theorem critical_issue_at_creation:
  "cPriority streetlightReport = Some CRITICAL
   \<and> slaOf (getIssue 1000 admin ''i9'' reportedState) = Some ''0d left''
   \<and> slaOf (getIssue 1000 admin ''i9'' reportedState) \<noteq> Some ''4h left''"
  by code_simp


section \<open>Listing and the scope of a role\<close>

lemma map_of_setProp_other: "k' \<noteq> k \<Longrightarrow> map_of (setProp k v w) k' = map_of w k'"
  by (induction w) auto

lemma map_of_setIfTruthy_other: "k' \<noteq> k \<Longrightarrow> map_of (setIfTruthy k v w) k' = map_of w k'"
  by (simp add: setIfTruthy_def map_of_setProp_other split: option.splits)

lemma setIfTruthy_falsy: "\<not> truthy v \<Longrightarrow> setIfTruthy k v w = w"
  by (simp add: setIfTruthy_def truthy_def split: option.splits)

lemma buildWhere_department:
  "\<not> truthy (qDepartment q) \<Longrightarrow>
   map_of (buildWhere user q) ''department'' = map_of (roleFilter user) ''department''"
  by (simp add: buildWhere_def Let_def map_of_setIfTruthy_other map_of_setProp_other setIfTruthy_falsy
      split: option.splits)

lemma buildWhere_assignedToId:
  "\<not> truthy (qAssignedToId q) \<Longrightarrow>
   map_of (buildWhere user q) ''assignedToId'' = map_of (roleFilter user) ''assignedToId''"
  by (simp add: buildWhere_def Let_def map_of_setIfTruthy_other map_of_setProp_other setIfTruthy_falsy
      split: option.splits)

lemma whereMatches_lookup:
  assumes "whereMatches w i" and "map_of w k = Some c"
  shows "conditionHolds k c i"
proof -
  have "(k, c) \<in> set w"
    using assms(2) by (rule map_of_SomeD)
  with assms(1) show ?thesis
    by (auto simp: whereMatches_def list_all_iff)
qed

lemma findMany_matches:
  "findMany w s t rows = Some found \<Longrightarrow> i \<in> set found \<Longrightarrow> whereMatches w i"
  by (auto simp: findMany_def Let_def split: option.splits if_splits
      dest!: in_set_takeD in_set_dropD)

lemma listIssues_miss:
  assumes "cache_get now (cache st) (listKey user q) = None"
    and "fst (listIssues now user q st) = Inr l"
  shows "\<exists>s t found. findMany (buildWhere user q) s t (issues st) = Some found
           \<and> items l = map (\<lambda>i. withSLA now (lifecycleAsc i)) found"
proof -
  define pageNum where "pageNum = (case qPage q of None \<Rightarrow> Some 1 | Some n \<Rightarrow> n)"
  define limitNum where "limitNum = (case qLimit q of None \<Rightarrow> Some 10 | Some n \<Rightarrow> n)"
  have miss: "cache_get now (cache st) (cacheKey (buildWhere user q) (skipOf pageNum limitNum) limitNum) = None"
    using assms(1) by (simp add: listKey_def pageNum_def limitNum_def Let_def)
  show ?thesis
  proof (cases "findMany (buildWhere user q) (skipOf pageNum limitNum) limitNum (issues st)")
    case None
    then have "fst (listIssues now user q st) = Inl PrismaError"
      using miss by (simp add: listIssues_def pageNum_def limitNum_def)
    with assms(2) show ?thesis by simp
  next
    case (Some found)
    then have "items l = map (\<lambda>i. withSLA now (lifecycleAsc i)) found"
      using miss assms(2) by (auto simp: listIssues_def pageNum_def limitNum_def Let_def)
    with Some show ?thesis by blast
  qed
qed

lemma columnText_lifecycleAsc [simp]: "columnText k (lifecycleAsc i) = columnText k i"
  by (simp add: columnText_def lifecycleAsc_def)

text \<open>
  What the role filter does achieve. When the answer comes from the database (no live
  cache entry for the query) and the caller sends no \<open>department\<close> parameter, every
  issue listed for a DEPARTMENT_HEAD with a department is of that department; when the
  caller sends no \<open>assignedToId\<close> parameter, every issue listed for a TEAM_MEMBER is
  assigned to that member.
\<close>

theorem listIssues_scoped_on_miss:
  assumes "cache_get now (cache st) (listKey user q) = None"
    and "fst (listIssues now user q st) = Inr l"
  shows "(role user = DEPARTMENT_HEAD \<and> userDepartment user = Some d \<and> d \<noteq> [] \<and> \<not> truthy (qDepartment q)
            \<longrightarrow> (\<forall>x \<in> set (items l). department (fst x) = d))
       \<and> (role user = TEAM_MEMBER \<and> \<not> truthy (qAssignedToId q)
            \<longrightarrow> (\<forall>x \<in> set (items l). assignedToId (fst x) = Some (userId user)))"
proof -
  obtain s t found where found: "findMany (buildWhere user q) s t (issues st) = Some found"
    and items: "items l = map (\<lambda>i. withSLA now (lifecycleAsc i)) found"
    using listIssues_miss [OF assms] by blast
  have col: "columnText k (fst x) = Some v"
    if "x \<in> set (items l)" and "map_of (buildWhere user q) k = Some (Equals v)" for x k v
  proof -
    from that(1) items obtain i where i: "i \<in> set found" "fst x = lifecycleAsc i"
      by (auto simp: withSLA_def)
    have "whereMatches (buildWhere user q) i"
      using found i(1) by (rule findMany_matches)
    then have "conditionHolds k (Equals v) i"
      using that(2) by (rule whereMatches_lookup)
    then show ?thesis
      by (simp add: i(2))
  qed
  have dept: "department (fst x) = d"
    if "role user = DEPARTMENT_HEAD \<and> userDepartment user = Some d \<and> d \<noteq> [] \<and> \<not> truthy (qDepartment q)"
      and "x \<in> set (items l)" for x
  proof -
    have "map_of (buildWhere user q) ''department'' = Some (Equals d)"
      using that(1) by (simp add: buildWhere_department roleFilter_def truthy_def)
    from col [OF that(2) this] show ?thesis
      by (simp add: columnText_def)
  qed
  have assignee: "assignedToId (fst x) = Some (userId user)"
    if "role user = TEAM_MEMBER \<and> \<not> truthy (qAssignedToId q)" and "x \<in> set (items l)" for x
  proof -
    have "map_of (buildWhere user q) ''assignedToId'' = Some (Equals (userId user))"
      using that(1) by (simp add: buildWhere_assignedToId roleFilter_def)
    from col [OF that(2) this] show ?thesis
      by (simp add: columnText_def)
  qed
  show ?thesis
    using dept assignee by blast
qed

theorem listIssues_scoped_on_miss_witness:
  "map (department \<circ> fst) (itemsOf (fst (listIssues 5000 deptHead noQuery exampleState)))
     = [''Public Works'', ''Public Works'']
   \<and> map (assignedToId \<circ> fst) (itemsOf (fst (listIssues 5000 teamMember noQuery exampleState)))
     = [Some ''u3'']"
proof -
  have d: "map (department \<circ> fst) (itemsOf (fst (listIssues 5000 deptHead noQuery exampleState)))
     = [''Public Works'', ''Public Works'']"
    by code_simp
  have m: "map (assignedToId \<circ> fst) (itemsOf (fst (listIssues 5000 teamMember noQuery exampleState)))
     = [Some ''u3'']"
    by code_simp
  obtain l where l: "fst (listIssues 5000 deptHead noQuery exampleState) = Inr l"
    using d by (cases "fst (listIssues 5000 deptHead noQuery exampleState)") (auto simp: itemsOf_def)
  have miss: "cache_get 5000 (cache exampleState) (listKey deptHead noQuery) = None"
    by (simp add: cache_get_def exampleState_def)
  have "\<forall>x \<in> set (items l). department (fst x) = ''Public Works''"
    using listIssues_scoped_on_miss [OF miss l, of "''Public Works''"]
    by (simp add: deptHead_def noQuery_def truthy_def)
  then show ?thesis
    using d m by simp
qed

text \<open>
  Claim C1. The claim asks for the same under every combination of caller-supplied
  filters. The handler writes the role's restriction into \<open>where\<close> first and the
  caller's \<open>department\<close> and \<open>assignedToId\<close> parameters over it afterwards, so
  the caller's value wins: the head of Public Works who asks for the Sanitation Dept is
  shown its issue, and the team member u3 who asks for the issues of u4 is shown the
  issue assigned to u4. Both are refused that same issue by the get handler.
\<close>

theorem listIssues_scope_overridden:
  "userDepartment deptHead = Some ''Public Works''
   \<and> map (department \<circ> fst)
        (itemsOf (fst (listIssues 5000 deptHead (noQuery\<lparr>qDepartment := Some ''Sanitation Dept''\<rparr>) exampleState)))
      = [''Sanitation Dept'']
   \<and> getIssue 5000 deptHead ''i3'' exampleState = Inl AccessDenied
   \<and> userId teamMember = ''u3''
   \<and> map (assignedToId \<circ> fst)
        (itemsOf (fst (listIssues 5000 teamMember (noQuery\<lparr>qAssignedToId := Some ''u4''\<rparr>) exampleState)))
      = [Some ''u4'']
   \<and> getIssue 5000 teamMember ''i3'' exampleState = Inl AccessDenied"
  by code_simp

section \<open>Cache invalidation\<close>

lemma cacheKey_not_pattern: "cacheKey w skip limitNum \<noteq> ''issues:*''"
  by (simp add: cacheKey_def)

lemma cache_del_other: "key \<noteq> k \<Longrightarrow> cache_del c k key = c key"
  by (simp add: cache_del_def)

lemma createIssue_cache:
  "key \<noteq> ''issues:*'' \<Longrightarrow> cache (snd (createIssue now newId user b st)) key = cache st key"
  by (simp add: createIssue_def Let_def cache_del_def)

lemma updateIssue_cache:
  "key \<noteq> ''issues:*'' \<Longrightarrow> cache (snd (updateIssue now user id' updates st)) key = cache st key"
  by (simp add: updateIssue_def Let_def cache_del_def split: option.splits)

lemma deleteIssue_cache:
  "key \<noteq> ''issues:*'' \<Longrightarrow> cache (snd (deleteIssue user id' st)) key = cache st key"
  by (simp add: deleteIssue_def cache_del_def split: option.splits)

text \<open>
  No key the list handler stores under is the literal \<open>issues:*\<close>, so the
  \<open>cache.del('issues:*')\<close> of the create, update and delete handlers removes none of
  the cached listings.
\<close>

lemma listing_cache_survives:
  "cache (snd (createIssue now newId user b st)) (cacheKey w s l) = cache st (cacheKey w s l)"
  "cache (snd (updateIssue now user id' updates st)) (cacheKey w s l) = cache st (cacheKey w s l)"
  "cache (snd (deleteIssue user id' st)) (cacheKey w s l) = cache st (cacheKey w s l)"
  by (simp_all add: createIssue_cache updateIssue_cache deleteIssue_cache cacheKey_not_pattern)

text \<open>
  Claim C10. The claim asks that after a successful create, update or delete no cached
  listing remains. In the example the administrator lists the issues at time 5000, which
  caches the answer for 300 seconds. After a successful create (of i4), update (i1 set to
  RESOLVED) or delete (of i1) the same query at time 7000 is still answered from the
  cache: without i4, with i1 as PENDING, and with the deleted i1.
\<close>

theorem stale_listing_after_mutation:
  "map (issueId \<circ> fst) (itemsOf (fst (listIssues 5000 admin noQuery exampleState))) = [''i3'', ''i2'', ''i1'']
   \<and> outcome (createIssue 6000 ''i4'' admin streetlightReport listedState) = None
   \<and> map issueId (issues (snd (createIssue 6000 ''i4'' admin streetlightReport listedState)))
       = [''i1'', ''i2'', ''i3'', ''i4'']
   \<and> map (issueId \<circ> fst)
        (itemsOf (fst (listIssues 7000 admin noQuery
           (snd (createIssue 6000 ''i4'' admin streetlightReport listedState)))))
       = [''i3'', ''i2'', ''i1'']
   \<and> outcome (updateIssue 6000 admin ''i1'' resolvePatch listedState) = None
   \<and> map_option status (stored ''i1'' (updateIssue 6000 admin ''i1'' resolvePatch listedState)) = Some RESOLVED
   \<and> map (\<lambda>x. (issueId (fst x), status (fst x), snd x))
        (itemsOf (fst (listIssues 7000 admin noQuery
           (snd (updateIssue 6000 admin ''i1'' resolvePatch listedState)))))
       = [(''i3'', PENDING, ''3d left''), (''i2'', IN_PROGRESS, ''0d left''), (''i1'', PENDING, ''1d left'')]
   \<and> outcome (deleteIssue admin ''i1'' listedState) = None
   \<and> map issueId (issues (snd (deleteIssue admin ''i1'' listedState))) = [''i2'', ''i3'']
   \<and> map (issueId \<circ> fst)
        (itemsOf (fst (listIssues 7000 admin noQuery (snd (deleteIssue admin ''i1'' listedState)))))
       = [''i3'', ''i2'', ''i1'']"
  by code_simp

end
